theory Spec2Isabelle
  imports Complex_Main
begin

section \<open>The home-view activity record of the Sugar shell\<close>

text \<open>
  A shallow embedding of \<^verbatim>\<open>src/model/homeactivity.py\<close> (class \<^verbatim>\<open>HomeActivity\<close>).
  Python names that start with an underscore lose it (\<^verbatim>\<open>_retrieve_service\<close> is
  \<open>retrieve_service\<close>, \<^verbatim>\<open>__init__\<close> is \<open>init\<close>, the private attribute
  \<^verbatim>\<open>_window\<close> is the field \<open>window\<close>), since an Isabelle name starts with a letter.
  A value that may be \<^verbatim>\<open>None\<close> is an \<open>option\<close>; an exception is the \<open>Inl\<close> of a
  sum; what the object does to the session bus and to the log is appended to a trace.
\<close>

subsection \<open>Collaborators\<close>

text \<open>
  The window handle, as far as the class reads it: \<^verbatim>\<open>get_name()\<close>, \<^verbatim>\<open>get_xid()\<close>
  and \<^verbatim>\<open>get_pid()\<close>.
\<close>

record wnck_window =
  window_name :: string
  window_xid :: int
  window_pid :: int

text \<open>The type-level metadata; the class reads its attribute \<^verbatim>\<open>icon\<close> only.\<close>

record activity_info =
  icon :: string

text \<open>An entry of the presence service's activity list: \<^verbatim>\<open>act.props.id\<close>, \<^verbatim>\<open>act.props.color\<close>.\<close>

record ps_activity =
  props_id :: string
  props_color :: string

datatype xocolor = XoColor string

text \<open>
  \<^verbatim>\<open>bus.get_object(name, path)\<close> gives a proxy object, and \<^verbatim>\<open>dbus.Interface(proxy, iface)\<close>
  wraps it. The state of the session bus is the set of the pairs of a bus name and an
  object path at which the lookup succeeds; elsewhere \<^verbatim>\<open>get_object\<close> raises
  \<^verbatim>\<open>dbus.DBusException\<close>, which is the result \<open>None\<close>.
\<close>

datatype proxy_object = ProxyObject "string option" string

datatype service_interface = Interface proxy_object string

type_synonym session_bus = "(string option \<times> string) set"

definition get_object :: "session_bus \<Rightarrow> string option \<Rightarrow> string \<Rightarrow> proxy_object option" where
  "get_object bus n p = (if (n, p) \<in> bus then Some (ProxyObject n p) else None)"

datatype py_error = ValueError string | AttributeError string

text \<open>What the object does to the outside, in the order it does it.\<close>

datatype event =
    GetObject "string option" string
  | AddSignalReceiver string string
  | SetActive service_interface bool
  | LoggingError string

definition SERVICE_NAME :: string where
  "SERVICE_NAME = ''org.laptop.Activity''"

definition SERVICE_PATH :: string where
  "SERVICE_PATH = ''/org/laptop/Activity''"

definition SERVICE_INTERFACE :: string where
  "SERVICE_INTERFACE = ''org.laptop.Activity''"

subsection \<open>The record and its world\<close>

text \<open>
  The attributes of \<^verbatim>\<open>self\<close>. The launch time is the reading of \<^verbatim>\<open>time.time()\<close>;
  it is stored and returned, never computed with.
\<close>

record home_activity =
  window :: "wnck_window option"
  service :: "service_interface option"
  activity_id :: "string option"
  activity_info :: "activity_info option"
  launch_time :: real
  launching :: bool

record world =
  self :: home_activity
  trace :: "event list"

text \<open>Python's truth value of a string or \<^verbatim>\<open>None\<close>: false for \<^verbatim>\<open>None\<close> and for \<^verbatim>\<open>''\<close>.\<close>

fun truthy :: "string option \<Rightarrow> bool" where
  "truthy None = False"
| "truthy (Some s) = (s \<noteq> [])"

subsection \<open>Methods\<close>

text \<open>
  \<^verbatim>\<open>set_window\<close>: a window handle is an object and so true; \<^verbatim>\<open>not window\<close> holds for
  \<^verbatim>\<open>None\<close> only. The result pairs the outcome with the record after the call.
\<close>

definition set_window :: "wnck_window option \<Rightarrow> home_activity \<Rightarrow> (py_error + unit) \<times> home_activity" where
  "set_window w a =
     (case w of
        None \<Rightarrow> (Inl (ValueError ''window must be valid''), a)
      | Some _ \<Rightarrow> (Inr (), a\<lparr>window := w\<rparr>))"

definition get_service :: "home_activity \<Rightarrow> service_interface option" where
  "get_service a = service a"

definition get_title :: "home_activity \<Rightarrow> string" where
  "get_title a = (case window a of Some w \<Rightarrow> window_name w | None \<Rightarrow> '''')"

definition get_activity_id :: "home_activity \<Rightarrow> string option" where
  "get_activity_id a = activity_id a"

text \<open>\<^verbatim>\<open>self._window.get_xid()\<close>: an attribute of \<^verbatim>\<open>None\<close> raises \<^verbatim>\<open>AttributeError\<close>.\<close>

definition get_xid :: "home_activity \<Rightarrow> py_error + int" where
  "get_xid a =
     (case window a of
        None \<Rightarrow> Inl (AttributeError ''get_xid'')
      | Some w \<Rightarrow> Inr (window_xid w))"

definition get_window :: "home_activity \<Rightarrow> wnck_window option" where
  "get_window a = window a"

text \<open>\<^verbatim>\<open>get_type\<close>; \<open>wm\<close> is \<^verbatim>\<open>wm.get_bundle_id\<close>, a collaborator outside this file.\<close>

definition get_type :: "(wnck_window \<Rightarrow> string option) \<Rightarrow> home_activity \<Rightarrow> string option" where
  "get_type wm a = (case window a of None \<Rightarrow> None | Some w \<Rightarrow> wm w)"

definition is_journal :: "(wnck_window \<Rightarrow> string option) \<Rightarrow> home_activity \<Rightarrow> bool" where
  "is_journal wm a = (get_type wm a = Some ''org.laptop.JournalActivity'')"

text \<open>\<^verbatim>\<open>os.path.join\<close> of two components (posixpath).\<close>

definition os_path_join :: "string \<Rightarrow> string \<Rightarrow> string" where
  "os_path_join p b =
     (if b \<noteq> [] \<and> hd b = CHR ''/'' then b
      else if p = [] \<or> last p = CHR ''/'' then p @ b
      else p @ ''/'' @ b)"

text \<open>\<^verbatim>\<open>get_icon_path\<close>; \<open>data_path\<close> is \<^verbatim>\<open>config.data_path\<close>, a constant outside this file.\<close>

definition get_icon_path :: "string \<Rightarrow> (wnck_window \<Rightarrow> string option) \<Rightarrow> home_activity \<Rightarrow> string option" where
  "get_icon_path data_path wm a =
     (if is_journal wm a then Some (os_path_join data_path ''icons/activity-journal.svg'')
      else case activity_info a of
             Some info \<Rightarrow> Some (icon info)
           | None \<Rightarrow> None)"

text \<open>The loop of \<^verbatim>\<open>get_icon_color\<close>: the first entry whose id is the record's, then \<^verbatim>\<open>break\<close>.\<close>

fun find_activity :: "string option \<Rightarrow> ps_activity list \<Rightarrow> ps_activity option" where
  "find_activity aid [] = None"
| "find_activity aid (act # acts) =
     (if aid = Some (props_id act) then Some act else find_activity aid acts)"

text \<open>
  \<^verbatim>\<open>get_icon_color\<close>; \<open>activities\<close> is \<^verbatim>\<open>pservice.get_activities()\<close> and \<open>profile_color\<close>
  is \<^verbatim>\<open>profile.get_color()\<close>.
\<close>

definition get_icon_color :: "ps_activity list \<Rightarrow> xocolor \<Rightarrow> home_activity \<Rightarrow> xocolor" where
  "get_icon_color activities profile_color a =
     (case find_activity (activity_id a) activities of
        Some act \<Rightarrow> XoColor (props_color act)
      | None \<Rightarrow> profile_color)"

definition get_launch_time :: "home_activity \<Rightarrow> real" where
  "get_launch_time a = launch_time a"

definition get_pid :: "home_activity \<Rightarrow> py_error + int" where
  "get_pid a =
     (case window a of
        None \<Rightarrow> Inl (AttributeError ''get_pid'')
      | Some w \<Rightarrow> Inr (window_pid w))"

text \<open>
  \<^verbatim>\<open>equals\<close>. The \<^verbatim>\<open>and\<close> of line 194 reads the receiver's identifier first and the
  other's only when the receiver's is non-zero; line 195 reads the same two values again.
\<close>

definition equals :: "home_activity \<Rightarrow> home_activity \<Rightarrow> py_error + bool" where
  "equals a activity =
     (if truthy (activity_id a) \<and> truthy (get_activity_id activity)
      then Inr (activity_id a = get_activity_id activity)
      else case window a of
             None \<Rightarrow> Inl (AttributeError ''get_xid'')
           | Some w \<Rightarrow>
               if window_xid w = 0 then Inr False
               else (case get_xid activity of
                       Inl e \<Rightarrow> Inl e
                     | Inr x \<Rightarrow> if x = 0 then Inr False else Inr (window_xid w = x)))"

text \<open>\<^verbatim>\<open>do_set_property\<close> and \<^verbatim>\<open>do_get_property\<close>; \<open>pspec_name\<close> is \<^verbatim>\<open>pspec.name\<close>.\<close>

definition do_set_property :: "string \<Rightarrow> bool \<Rightarrow> home_activity \<Rightarrow> home_activity" where
  "do_set_property pspec_name v a =
     (if pspec_name = ''launching'' then a\<lparr>launching := v\<rparr> else a)"

definition do_get_property :: "string \<Rightarrow> home_activity \<Rightarrow> bool option" where
  "do_get_property pspec_name a =
     (if pspec_name = ''launching'' then Some (launching a) else None)"

definition get_service_name :: "home_activity \<Rightarrow> string option" where
  "get_service_name a =
     (case activity_id a of
        None \<Rightarrow> None
      | Some i \<Rightarrow> if i \<noteq> [] then Some (SERVICE_NAME @ i) else None)"

text \<open>
  \<^verbatim>\<open>_retrieve_service\<close>: nothing without an id; otherwise one lookup on the bus, and
  the handle is the interface on the proxy, or \<^verbatim>\<open>None\<close> when the lookup raises.
\<close>

definition retrieve_service :: "session_bus \<Rightarrow> world \<Rightarrow> world" where
  "retrieve_service bus w =
     (case activity_id (self w) of
        None \<Rightarrow> w
      | Some i \<Rightarrow>
          if i = [] then w
          else
            let n = get_service_name (self w);
                p = SERVICE_PATH @ ''/'' @ i;
                t = trace w @ [GetObject n p]
            in (case get_object bus n p of
                  Some proxy \<Rightarrow>
                    \<lparr>self = (self w)\<lparr>service := Some (Interface proxy SERVICE_INTERFACE)\<rparr>, trace = t\<rparr>
                | None \<Rightarrow> \<lparr>self = (self w)\<lparr>service := None\<rparr>, trace = t\<rparr>))"

text \<open>\<^verbatim>\<open>set_active\<close>: the asynchronous call is sent; its reply comes later, to a handler.\<close>

definition set_active :: "bool \<Rightarrow> world \<Rightarrow> world" where
  "set_active state w =
     (case service (self w) of
        Some s \<Rightarrow> w\<lparr>trace := trace w @ [SetActive s state]\<rparr>
      | None \<Rightarrow> w)"

definition set_active_success :: "world \<Rightarrow> world" where
  "set_active_success w = w"

definition set_active_error :: "string \<Rightarrow> world \<Rightarrow> world" where
  "set_active_error err w = w\<lparr>trace := trace w @ [LoggingError (''set_active() failed: '' @ err)]\<rparr>"

text \<open>\<^verbatim>\<open>_name_owner_changed_cb\<close>; the signal carries three strings.\<close>

definition name_owner_changed_cb :: "session_bus \<Rightarrow> string \<Rightarrow> string \<Rightarrow> string \<Rightarrow> world \<Rightarrow> world" where
  "name_owner_changed_cb bus name old new w =
     (if Some name = get_service_name (self w)
      then set_active True (retrieve_service bus w)
      else w)"

text \<open>
  \<^verbatim>\<open>__init__\<close>; \<open>now\<close> is the reading of \<^verbatim>\<open>time.time()\<close>. An exception of
  \<^verbatim>\<open>set_window\<close> leaves the constructor at once.
\<close>

definition init :: "session_bus \<Rightarrow> real \<Rightarrow> activity_info option \<Rightarrow> string option \<Rightarrow> wnck_window option
    \<Rightarrow> (py_error + unit) \<times> world" where
  "init bus now info aid win =
     (let a0 = \<lparr>window = None, service = None, activity_id = aid, activity_info = info,
                launch_time = now, launching = False\<rparr>;
          (r, a1) = (if win \<noteq> None then set_window win a0 else (Inr (), a0))
      in (case r of
            Inl e \<Rightarrow> (Inl e, \<lparr>self = a1, trace = []\<rparr>)
          | Inr _ \<Rightarrow>
              (let w = retrieve_service bus \<lparr>self = a1, trace = []\<rparr>
               in if service (self w) = None
                  then (Inr (), w\<lparr>trace := trace w @ [AddSignalReceiver ''NameOwnerChanged'' ''org.freedesktop.DBus'']\<rparr>)
                  else (Inr (), w))))"
subsection \<open>The host's calls\<close>

text \<open>
  After construction the shell and the bus reach the record through its public methods,
  the signal receiver registered by the constructor, and the two reply handlers handed to
  the asynchronous call. A run is a list of such calls, each with the state of the bus
  at that moment. An exception of \<^verbatim>\<open>set_window\<close> goes to the caller; the record stays
  as it was, and the run goes on.
\<close>

datatype call =
    Call_set_window "wnck_window option"
  | Call_set_active bool
  | Call_do_set_property string bool
  | Signal_name_owner_changed string string string
  | Reply_set_active_success
  | Reply_set_active_error string

fun step :: "session_bus \<Rightarrow> call \<Rightarrow> world \<Rightarrow> world" where
  "step bus (Call_set_window win) w = w\<lparr>self := snd (set_window win (self w))\<rparr>"
| "step bus (Call_set_active state) w = set_active state w"
| "step bus (Call_do_set_property n v) w = w\<lparr>self := do_set_property n v (self w)\<rparr>"
| "step bus (Signal_name_owner_changed name old new) w = name_owner_changed_cb bus name old new w"
| "step bus Reply_set_active_success w = set_active_success w"
| "step bus (Reply_set_active_error err) w = set_active_error err w"

fun run :: "(session_bus \<times> call) list \<Rightarrow> world \<Rightarrow> world" where
  "run [] w = w"
| "run ((bus, c) # cs) w = run cs (step bus c w)"

text \<open>The events that reach the remote service: a lookup, or a call of its method.\<close>

fun is_remote :: "event \<Rightarrow> bool" where
  "is_remote (GetObject n p) = True"
| "is_remote (SetActive s b) = True"
| "is_remote (AddSignalReceiver s i) = False"
| "is_remote (LoggingError m) = False"

section \<open>Properties\<close>

subsection \<open>Auxiliary facts\<close>

lemma truthy_iff: "truthy x = (\<exists>i. x = Some i \<and> i \<noteq> [])"
  by (cases x) auto

lemma get_service_name_falsy: "\<not> truthy (activity_id a) \<Longrightarrow> get_service_name a = None"
  by (auto simp: get_service_name_def truthy_iff split: option.splits)

lemma get_service_name_eq_Some:
  "(get_service_name a = Some n) = (\<exists>i. activity_id a = Some i \<and> i \<noteq> [] \<and> n = SERVICE_NAME @ i)"
  by (auto simp: get_service_name_def split: option.splits)

lemma retrieve_service_falsy: "\<not> truthy (activity_id (self w)) \<Longrightarrow> retrieve_service bus w = w"
  by (auto simp: retrieve_service_def truthy_iff split: option.splits)

lemma retrieve_service_truthy:
  assumes "activity_id (self w) = Some i" and "i \<noteq> []"
  shows "retrieve_service bus w =
     \<lparr>self = (self w)\<lparr>service :=
               (if (Some (SERVICE_NAME @ i), SERVICE_PATH @ ''/'' @ i) \<in> bus
                then Some (Interface (ProxyObject (Some (SERVICE_NAME @ i)) (SERVICE_PATH @ ''/'' @ i))
                             SERVICE_INTERFACE)
                else None)\<rparr>,
      trace = trace w @ [GetObject (Some (SERVICE_NAME @ i)) (SERVICE_PATH @ ''/'' @ i)]\<rparr>"
  using assms by (simp add: retrieve_service_def get_service_name_def get_object_def Let_def)

lemma retrieve_service_activity_id: "activity_id (self (retrieve_service bus w)) = activity_id (self w)"
  by (simp add: retrieve_service_def Let_def split: option.splits)

lemma name_owner_changed_cb_falsy:
  "\<not> truthy (activity_id (self w)) \<Longrightarrow> name_owner_changed_cb bus name old new w = w"
  by (simp add: name_owner_changed_cb_def get_service_name_falsy)

lemma find_activity_Some:
  "find_activity aid acts = Some act \<Longrightarrow> act \<in> set acts \<and> aid = Some (props_id act)"
  by (induction acts) (auto split: if_splits)

lemma find_activity_None:
  "(find_activity aid acts = None) = (\<forall>act \<in> set acts. aid \<noteq> Some (props_id act))"
  by (induction acts) auto

lemma find_activity_first:
  "\<forall>b \<in> set pre. aid \<noteq> Some (props_id b) \<Longrightarrow> aid = Some (props_id act) \<Longrightarrow>
   find_activity aid (pre @ act # post) = Some act"
  by (induction pre) auto

lemma step_falsy:
  assumes "\<not> truthy (activity_id (self w))" and "service (self w) = None"
  shows "\<not> truthy (activity_id (self (step bus c w)))
       \<and> service (self (step bus c w)) = None
       \<and> filter is_remote (trace (step bus c w)) = filter is_remote (trace w)"
proof (cases c)
  case (Call_set_window win)
  then show ?thesis using assms by (cases win) (simp_all add: set_window_def)
next
  case (Call_set_active state)
  then show ?thesis using assms by (simp add: set_active_def)
next
  case (Call_do_set_property n v)
  then show ?thesis using assms by (simp add: do_set_property_def)
next
  case (Signal_name_owner_changed name old new)
  then show ?thesis using assms by (simp add: name_owner_changed_cb_falsy)
next
  case Reply_set_active_success
  then show ?thesis using assms by (simp add: set_active_success_def)
next
  case (Reply_set_active_error err)
  then show ?thesis using assms by (simp add: set_active_error_def)
qed

lemma run_falsy:
  "\<not> truthy (activity_id (self w)) \<Longrightarrow> service (self w) = None \<Longrightarrow>
   service (self (run calls w)) = None
   \<and> filter is_remote (trace (run calls w)) = filter is_remote (trace w)"
proof (induction calls arbitrary: w)
  case Nil
  then show ?case by simp
next
  case (Cons bc calls)
  obtain bus c where bc: "bc = (bus, c)" by (cases bc)
  from step_falsy [OF Cons.prems, of bus c] Cons.IH [of "step bus c w"]
  show ?case by (simp add: bc)
qed

lemma init_falsy:
  assumes "\<not> truthy aid"
  shows "init bus now info aid win =
     (Inr (), \<lparr>self = \<lparr>window = win, service = None, activity_id = aid, activity_info = info,
                launch_time = now, launching = False\<rparr>,
              trace = [AddSignalReceiver ''NameOwnerChanged'' ''org.freedesktop.DBus'']\<rparr>)"
  using assms by (cases win) (simp_all add: init_def set_window_def retrieve_service_falsy)

subsection \<open>Equality of two records\<close>

text \<open>
  Claim C1, as the code has it. \<open>equals\<close> returns true exactly when both records carry
  the same non-empty activity id, or when at least one of the two ids is empty and both
  windows exist and carry the same non-zero window identifier. It returns false exactly
  when both ids are non-empty and differ, or when at least one id is empty, the receiver
  has a window, and that window's identifier is zero or the other record has a window
  with another identifier. In particular two records with equal non-empty ids are equal
  whatever their windows are; two records with empty ids and equal non-zero window
  identifiers are equal; two records with non-empty ids that differ are not equal,
  whatever their windows are; and two records with differing ids whose windows both
  exist and carry differing identifiers are not equal.
\<close>

theorem equals_true_iff:
  "(equals a b = Inr True) =
     (truthy (activity_id a) \<and> truthy (activity_id b) \<and> activity_id a = activity_id b
      \<or> \<not> (truthy (activity_id a) \<and> truthy (activity_id b))
        \<and> (\<exists>w v. window a = Some w \<and> window b = Some v
               \<and> window_xid w \<noteq> 0 \<and> window_xid w = window_xid v))
   \<and> (equals a b = Inr False) =
     (truthy (activity_id a) \<and> truthy (activity_id b) \<and> activity_id a \<noteq> activity_id b
      \<or> \<not> (truthy (activity_id a) \<and> truthy (activity_id b))
        \<and> (\<exists>w. window a = Some w
               \<and> (window_xid w = 0 \<or> (\<exists>v. window b = Some v \<and> window_xid v \<noteq> window_xid w))))
   \<and> (truthy (activity_id a) \<and> truthy (activity_id b) \<and> activity_id a \<noteq> activity_id b
        \<longrightarrow> equals a b = Inr False)
   \<and> (\<forall>w v. activity_id a \<noteq> activity_id b \<and> window a = Some w \<and> window b = Some v
          \<and> window_xid w \<noteq> window_xid v
        \<longrightarrow> equals a b = Inr False)"
proof -
  have t: "(equals a b = Inr True) =
     (truthy (activity_id a) \<and> truthy (activity_id b) \<and> activity_id a = activity_id b
      \<or> \<not> (truthy (activity_id a) \<and> truthy (activity_id b))
        \<and> (\<exists>w v. window a = Some w \<and> window b = Some v
               \<and> window_xid w \<noteq> 0 \<and> window_xid w = window_xid v))"
    by (auto simp: equals_def get_activity_id_def get_xid_def split: option.splits)
  have f: "(equals a b = Inr False) =
     (truthy (activity_id a) \<and> truthy (activity_id b) \<and> activity_id a \<noteq> activity_id b
      \<or> \<not> (truthy (activity_id a) \<and> truthy (activity_id b))
        \<and> (\<exists>w. window a = Some w
               \<and> (window_xid w = 0 \<or> (\<exists>v. window b = Some v \<and> window_xid v \<noteq> window_xid w))))"
    by (auto simp: equals_def get_activity_id_def get_xid_def split: option.splits)
  have d: "truthy (activity_id a) \<and> truthy (activity_id b) \<and> activity_id a \<noteq> activity_id b
        \<longrightarrow> equals a b = Inr False"
    by (simp add: equals_def get_activity_id_def)
  have x: "\<forall>w v. activity_id a \<noteq> activity_id b \<and> window a = Some w \<and> window b = Some v
          \<and> window_xid w \<noteq> window_xid v
        \<longrightarrow> equals a b = Inr False"
    by (auto simp: equals_def get_activity_id_def get_xid_def)
  from t f d x show ?thesis by blast
qed

theorem equals_true_iff_witness:
  "equals
     \<lparr>window = None, service = None, activity_id = Some ''abc123'', activity_info = None,
      launch_time = 0, launching = False\<rparr>
     \<lparr>window = Some \<lparr>window_name = ''Write'', window_xid = 7, window_pid = 100\<rparr>, service = None,
      activity_id = Some ''abc123'', activity_info = None, launch_time = 1, launching = True\<rparr>
   = Inr True
   \<and> equals
     \<lparr>window = Some \<lparr>window_name = ''xterm'', window_xid = 7, window_pid = 100\<rparr>, service = None,
      activity_id = Some [], activity_info = None, launch_time = 0, launching = False\<rparr>
     \<lparr>window = Some \<lparr>window_name = ''xterm'', window_xid = 7, window_pid = 100\<rparr>, service = None,
      activity_id = None, activity_info = None, launch_time = 1, launching = False\<rparr>
   = Inr True
   \<and> equals
     \<lparr>window = Some \<lparr>window_name = ''Write'', window_xid = 7, window_pid = 100\<rparr>, service = None,
      activity_id = Some ''abc123'', activity_info = None, launch_time = 0, launching = False\<rparr>
     \<lparr>window = Some \<lparr>window_name = ''Paint'', window_xid = 8, window_pid = 101\<rparr>, service = None,
      activity_id = Some ''def456'', activity_info = None, launch_time = 1, launching = False\<rparr>
   = Inr False
   \<and> equals
     \<lparr>window = Some \<lparr>window_name = ''xterm'', window_xid = 7, window_pid = 100\<rparr>, service = None,
      activity_id = None, activity_info = None, launch_time = 0, launching = False\<rparr>
     \<lparr>window = Some \<lparr>window_name = ''Paint'', window_xid = 8, window_pid = 101\<rparr>, service = None,
      activity_id = Some ''def456'', activity_info = None, launch_time = 1, launching = False\<rparr>
   = Inr False"
  using
    equals_true_iff [of
     "\<lparr>window = None, service = None, activity_id = Some ''abc123'', activity_info = None,
       launch_time = 0, launching = False\<rparr>"
     "\<lparr>window = Some \<lparr>window_name = ''Write'', window_xid = 7, window_pid = 100\<rparr>, service = None,
       activity_id = Some ''abc123'', activity_info = None, launch_time = 1, launching = True\<rparr>"]
    equals_true_iff [of
     "\<lparr>window = Some \<lparr>window_name = ''xterm'', window_xid = 7, window_pid = 100\<rparr>, service = None,
       activity_id = Some [], activity_info = None, launch_time = 0, launching = False\<rparr>"
     "\<lparr>window = Some \<lparr>window_name = ''xterm'', window_xid = 7, window_pid = 100\<rparr>, service = None,
       activity_id = None, activity_info = None, launch_time = 1, launching = False\<rparr>"]
    equals_true_iff [of
     "\<lparr>window = Some \<lparr>window_name = ''Write'', window_xid = 7, window_pid = 100\<rparr>, service = None,
       activity_id = Some ''abc123'', activity_info = None, launch_time = 0, launching = False\<rparr>"
     "\<lparr>window = Some \<lparr>window_name = ''Paint'', window_xid = 8, window_pid = 101\<rparr>, service = None,
       activity_id = Some ''def456'', activity_info = None, launch_time = 1, launching = False\<rparr>"]
    equals_true_iff [of
     "\<lparr>window = Some \<lparr>window_name = ''xterm'', window_xid = 7, window_pid = 100\<rparr>, service = None,
       activity_id = None, activity_info = None, launch_time = 0, launching = False\<rparr>"
     "\<lparr>window = Some \<lparr>window_name = ''Paint'', window_xid = 8, window_pid = 101\<rparr>, service = None,
       activity_id = Some ''def456'', activity_info = None, launch_time = 1, launching = False\<rparr>"]
  by (simp add: equals_def get_activity_id_def get_xid_def)

text \<open>
  Claim C1 as the specification words it fails twice. Two records whose non-empty ids
  differ are not equal although both windows exist and carry the same identifier 7: the
  comparison of the ids decides, and the windows are not read. And two records without
  ids whose windows both carry the identifier 0 are not equal: a zero identifier counts
  as none.
\<close>

theorem equals_claim_counterexample:
  "equals
     \<lparr>window = Some \<lparr>window_name = ''Write'', window_xid = 7, window_pid = 100\<rparr>, service = None,
      activity_id = Some ''abc123'', activity_info = None, launch_time = 0, launching = False\<rparr>
     \<lparr>window = Some \<lparr>window_name = ''Write'', window_xid = 7, window_pid = 100\<rparr>, service = None,
      activity_id = Some ''def456'', activity_info = None, launch_time = 0, launching = False\<rparr>
   = Inr False
   \<and> equals
     \<lparr>window = Some \<lparr>window_name = ''root'', window_xid = 0, window_pid = 1\<rparr>, service = None,
      activity_id = None, activity_info = None, launch_time = 0, launching = False\<rparr>
     \<lparr>window = Some \<lparr>window_name = ''root'', window_xid = 0, window_pid = 1\<rparr>, service = None,
      activity_id = None, activity_info = None, launch_time = 0, launching = False\<rparr>
   = Inr False"
  by (simp add: equals_def get_activity_id_def get_xid_def)

subsection \<open>Construction without an id\<close>

text \<open>
  Claim C2, as the code has it. Constructing a record with an empty activity id (the
  empty string or \<^verbatim>\<open>None\<close>) and no window never attempts a remote lookup; since
  the service handle is then absent, the constructor subscribes to the ownership-change
  notifications of the bus, once. The trace of the construction is that subscription
  and nothing else.
\<close>

theorem init_no_id_no_window:
  "\<not> truthy aid \<Longrightarrow>
   init bus now info aid None =
     (Inr (), \<lparr>self = \<lparr>window = None, service = None, activity_id = aid, activity_info = info,
                launch_time = now, launching = False\<rparr>,
              trace = [AddSignalReceiver ''NameOwnerChanged'' ''org.freedesktop.DBus'']\<rparr>)"
  by (rule init_falsy)

theorem init_no_id_no_window_witness:
  "\<not> truthy None
   \<and> init {(Some ''org.laptop.Activity'', ''/org/laptop/Activity/'')} 12 None None None =
     (Inr (), \<lparr>self = \<lparr>window = None, service = None, activity_id = None, activity_info = None,
                launch_time = 12, launching = False\<rparr>,
              trace = [AddSignalReceiver ''NameOwnerChanged'' ''org.freedesktop.DBus'']\<rparr>)"
  using init_no_id_no_window [of None "{(Some ''org.laptop.Activity'', ''/org/laptop/Activity/'')}" 12 None]
  by simp

text \<open>
  Claim C2 as the specification words it fails: with the empty string for an id and no
  window, the constructor does subscribe to the ownership-change notifications.
\<close>

theorem init_claim_counterexample:
  "\<not> truthy (Some [])
   \<and> AddSignalReceiver ''NameOwnerChanged'' ''org.freedesktop.DBus''
       \<in> set (trace (snd (init {} 0 None (Some []) None)))"
  by (simp add: init_def retrieve_service_def)

subsection \<open>The ownership-change notification\<close>

text \<open>
  Claim C3, as the code has it. For a record without a service handle, a notification
  whose name is the record's well-known name makes the record look its service up again,
  once, at that name and at the object path of its id. The launching flag stays as it
  was. When the lookup succeeds the handle is bound and active=true is sent to it; when
  the lookup fails the record stays without a handle and nothing is sent.
\<close>

theorem name_owner_changed_cb_matching:
  assumes "service (self w) = None" and "Some name = get_service_name (self w)"
  shows "\<exists>i. activity_id (self w) = Some i \<and> i \<noteq> [] \<and> name = SERVICE_NAME @ i
       \<and> launching (self (name_owner_changed_cb bus name old new w)) = launching (self w)
       \<and> name_owner_changed_cb bus name old new w =
           (if (Some name, SERVICE_PATH @ ''/'' @ i) \<in> bus
            then \<lparr>self = (self w)\<lparr>service := Some (Interface (ProxyObject (Some name) (SERVICE_PATH @ ''/'' @ i))
                                                   SERVICE_INTERFACE)\<rparr>,
                  trace = trace w @ [GetObject (Some name) (SERVICE_PATH @ ''/'' @ i),
                                     SetActive (Interface (ProxyObject (Some name) (SERVICE_PATH @ ''/'' @ i))
                                                  SERVICE_INTERFACE) True]\<rparr>
            else \<lparr>self = self w,
                  trace = trace w @ [GetObject (Some name) (SERVICE_PATH @ ''/'' @ i)]\<rparr>)"
proof -
  from assms(2) have "get_service_name (self w) = Some name" by simp
  then obtain i where i: "activity_id (self w) = Some i" "i \<noteq> []" "name = SERVICE_NAME @ i"
    by (auto simp: get_service_name_eq_Some)
  have cb: "name_owner_changed_cb bus name old new w = set_active True (retrieve_service bus w)"
    using assms(2) by (simp add: name_owner_changed_cb_def)
  show ?thesis
  proof (cases "(Some name, SERVICE_PATH @ ''/'' @ i) \<in> bus")
    case True
    with i show ?thesis
      unfolding cb by (simp add: retrieve_service_truthy [OF i(1) i(2)] set_active_def)
  next
    case False
    with i assms(1) show ?thesis
      unfolding cb by (simp add: retrieve_service_truthy [OF i(1) i(2)] set_active_def)
  qed
qed

theorem name_owner_changed_cb_matching_witness:
  "name_owner_changed_cb {(Some ''org.laptop.Activityabc123'', ''/org/laptop/Activity/abc123'')}
     ''org.laptop.Activityabc123'' [] '':1.42''
     \<lparr>self = \<lparr>window = None, service = None, activity_id = Some ''abc123'', activity_info = None,
              launch_time = 5, launching = True\<rparr>,
      trace = [AddSignalReceiver ''NameOwnerChanged'' ''org.freedesktop.DBus'']\<rparr>
   = \<lparr>self = \<lparr>window = None,
               service = Some (Interface (ProxyObject (Some ''org.laptop.Activityabc123'')
                                            ''/org/laptop/Activity/abc123'') ''org.laptop.Activity''),
               activity_id = Some ''abc123'', activity_info = None, launch_time = 5, launching = True\<rparr>,
       trace = [AddSignalReceiver ''NameOwnerChanged'' ''org.freedesktop.DBus'',
                GetObject (Some ''org.laptop.Activityabc123'') ''/org/laptop/Activity/abc123'',
                SetActive (Interface (ProxyObject (Some ''org.laptop.Activityabc123'')
                                        ''/org/laptop/Activity/abc123'') ''org.laptop.Activity'') True]\<rparr>"
  using name_owner_changed_cb_matching [of
     "\<lparr>self = \<lparr>window = None, service = None, activity_id = Some ''abc123'', activity_info = None,
               launch_time = 5, launching = True\<rparr>,
       trace = [AddSignalReceiver ''NameOwnerChanged'' ''org.freedesktop.DBus'']\<rparr>"
     "''org.laptop.Activityabc123''"
     "{(Some ''org.laptop.Activityabc123'', ''/org/laptop/Activity/abc123'')}" "[]" "'':1.42''"]
  by (simp add: get_service_name_def SERVICE_NAME_def SERVICE_PATH_def SERVICE_INTERFACE_def)

text \<open>
  Claim C3 as the specification words it fails twice. A record whose launching flag is
  set keeps it set after the matching notification, although the lookup succeeds. And
  when the lookup fails, the matching notification sends nothing to the service.
\<close>

theorem name_owner_changed_cb_claim_counterexample:
  "launching (self (name_owner_changed_cb
       {(Some ''org.laptop.Activityabc123'', ''/org/laptop/Activity/abc123'')}
       ''org.laptop.Activityabc123'' [] '':1.42''
       \<lparr>self = \<lparr>window = None, service = None, activity_id = Some ''abc123'', activity_info = None,
                launch_time = 5, launching = True\<rparr>,
        trace = []\<rparr>)) = True
   \<and> name_owner_changed_cb {} ''org.laptop.Activityabc123'' [] '':1.42''
       \<lparr>self = \<lparr>window = None, service = None, activity_id = Some ''abc123'', activity_info = None,
                launch_time = 5, launching = False\<rparr>,
        trace = []\<rparr>
     = \<lparr>self = \<lparr>window = None, service = None, activity_id = Some ''abc123'', activity_info = None,
                launch_time = 5, launching = False\<rparr>,
        trace = [GetObject (Some ''org.laptop.Activityabc123'') ''/org/laptop/Activity/abc123'']\<rparr>"
  by (simp add: name_owner_changed_cb_def get_service_name_def retrieve_service_def get_object_def
      set_active_def SERVICE_NAME_def SERVICE_PATH_def SERVICE_INTERFACE_def Let_def)

subsection \<open>Attaching a window\<close>

text \<open>
  Claim C4. \<open>set_window\<close> with no window fails with \<^verbatim>\<open>ValueError\<close> (the invalid
  argument error) and leaves the record as it was; with a window it succeeds, and the
  record after the call is the record before it with the window field replaced.
\<close>

theorem set_window_spec:
  "set_window None a = (Inl (ValueError ''window must be valid''), a)
   \<and> set_window (Some win) a = (Inr (), a\<lparr>window := Some win\<rparr>)"
  by (simp add: set_window_def)

subsection \<open>Forwarding the active state\<close>


subsection \<open>The icon colour\<close>

text \<open>
  Claim C6. For every record and every activity list of the presence service:
  when the list has an entry whose id is the record's activity id, \<open>get_icon_color\<close>
  returns the colour of such an entry (the first one); otherwise it returns the colour of
  the local user's profile. The list may be empty, or have one or several entries.
\<close>

theorem get_icon_color_spec:
  "(if \<exists>act \<in> set acts. activity_id a = Some (props_id act)
    then \<exists>pre act post. acts = pre @ act # post
           \<and> (\<forall>b \<in> set pre. activity_id a \<noteq> Some (props_id b))
           \<and> activity_id a = Some (props_id act)
           \<and> get_icon_color acts profile_color a = XoColor (props_color act)
    else get_icon_color acts profile_color a = profile_color)"
proof (cases "\<exists>act \<in> set acts. activity_id a = Some (props_id act)")
  case True
  then obtain pre act post where s: "acts = pre @ act # post"
      "activity_id a = Some (props_id act)" "\<forall>b \<in> set pre. activity_id a \<noteq> Some (props_id b)"
    using split_list_first_prop [of acts "\<lambda>act. activity_id a = Some (props_id act)"] by blast
  have "find_activity (activity_id a) acts = Some act"
    unfolding s(1) using s(3) s(2) by (rule find_activity_first)
  then have "get_icon_color acts profile_color a = XoColor (props_color act)"
    by (simp add: get_icon_color_def)
  with s True show ?thesis by auto
next
  case False
  then have "find_activity (activity_id a) acts = None"
    by (simp add: find_activity_None)
  with False show ?thesis by (simp add: get_icon_color_def)
qed

theorem get_icon_color_spec_witness:
  "get_icon_color [] (XoColor ''#FF0000,#00FF00'')
     \<lparr>window = None, service = None, activity_id = Some ''abc123'', activity_info = None,
      launch_time = 5, launching = False\<rparr>
   = XoColor ''#FF0000,#00FF00''
   \<and> get_icon_color [\<lparr>props_id = ''abc123'', props_color = ''#000000,#FFFFFF''\<rparr>]
       (XoColor ''#FF0000,#00FF00'')
       \<lparr>window = None, service = None, activity_id = Some ''abc123'', activity_info = None,
        launch_time = 5, launching = False\<rparr>
     = XoColor ''#000000,#FFFFFF''
   \<and> get_icon_color [\<lparr>props_id = ''zzz'', props_color = ''#111111,#222222''\<rparr>,
                      \<lparr>props_id = ''abc123'', props_color = ''#000000,#FFFFFF''\<rparr>,
                      \<lparr>props_id = ''abc123'', props_color = ''#333333,#444444''\<rparr>]
       (XoColor ''#FF0000,#00FF00'')
       \<lparr>window = None, service = None, activity_id = Some ''abc123'', activity_info = None,
        launch_time = 5, launching = False\<rparr>
     = XoColor ''#000000,#FFFFFF''
   \<and> get_icon_color [\<lparr>props_id = ''zzz'', props_color = ''#111111,#222222''\<rparr>,
                      \<lparr>props_id = ''yyy'', props_color = ''#000000,#FFFFFF''\<rparr>]
       (XoColor ''#FF0000,#00FF00'')
       \<lparr>window = None, service = None, activity_id = Some ''abc123'', activity_info = None,
        launch_time = 5, launching = False\<rparr>
     = XoColor ''#FF0000,#00FF00''"
  using
    get_icon_color_spec [of "[]"
      "\<lparr>window = None, service = None, activity_id = Some ''abc123'', activity_info = None,
        launch_time = 5, launching = False\<rparr>" "XoColor ''#FF0000,#00FF00''"]
    get_icon_color_spec [of "[\<lparr>props_id = ''zzz'', props_color = ''#111111,#222222''\<rparr>,
                      \<lparr>props_id = ''yyy'', props_color = ''#000000,#FFFFFF''\<rparr>]"
      "\<lparr>window = None, service = None, activity_id = Some ''abc123'', activity_info = None,
        launch_time = 5, launching = False\<rparr>" "XoColor ''#FF0000,#00FF00''"]
  by (simp add: get_icon_color_def)

subsection \<open>The journal\<close>

text \<open>
  Claim C7. \<open>is_journal\<close> is true if and only if the bundle id that \<open>get_type\<close>
  resolves is the fixed journal bundle id, that is, if and only if a window is attached
  and the window manager resolves the journal bundle id from it. \<open>get_type\<close> is what
  the window manager resolves from the attached window, and is absent when no window is
  attached; then \<open>is_journal\<close> is false.
\<close>

theorem is_journal_spec:
  "is_journal wm a = (get_type wm a = Some ''org.laptop.JournalActivity'')
   \<and> is_journal wm a = (\<exists>win. window a = Some win \<and> wm win = Some ''org.laptop.JournalActivity'')
   \<and> (\<forall>win. window a = Some win \<longrightarrow>
         get_type wm a = wm win
         \<and> is_journal wm a = (wm win = Some ''org.laptop.JournalActivity''))
   \<and> (window a = None \<longrightarrow> get_type wm a = None \<and> \<not> is_journal wm a)"
  by (auto simp: is_journal_def get_type_def split: option.splits)

theorem is_journal_spec_witness:
  "is_journal (\<lambda>win. if window_xid win = 7 then Some ''org.laptop.JournalActivity'' else None)
     \<lparr>window = Some \<lparr>window_name = ''Journal'', window_xid = 7, window_pid = 100\<rparr>, service = None,
      activity_id = Some ''abc123'', activity_info = None, launch_time = 0, launching = False\<rparr>
   \<and> \<not> is_journal (\<lambda>win. if window_xid win = 7 then Some ''org.laptop.JournalActivity'' else None)
     \<lparr>window = Some \<lparr>window_name = ''Write'', window_xid = 8, window_pid = 101\<rparr>, service = None,
      activity_id = Some ''abc123'', activity_info = None, launch_time = 0, launching = False\<rparr>
   \<and> get_type (\<lambda>win. if window_xid win = 7 then Some ''org.laptop.JournalActivity'' else None)
     \<lparr>window = None, service = None, activity_id = Some ''abc123'', activity_info = None,
      launch_time = 0, launching = False\<rparr>
     = None"
  using
    is_journal_spec [of "\<lambda>win. if window_xid win = 7 then Some ''org.laptop.JournalActivity'' else None"
     "\<lparr>window = Some \<lparr>window_name = ''Journal'', window_xid = 7, window_pid = 100\<rparr>, service = None,
       activity_id = Some ''abc123'', activity_info = None, launch_time = 0, launching = False\<rparr>"]
    is_journal_spec [of "\<lambda>win. if window_xid win = 7 then Some ''org.laptop.JournalActivity'' else None"
     "\<lparr>window = Some \<lparr>window_name = ''Write'', window_xid = 8, window_pid = 101\<rparr>, service = None,
       activity_id = Some ''abc123'', activity_info = None, launch_time = 0, launching = False\<rparr>"]
    is_journal_spec [of "\<lambda>win. if window_xid win = 7 then Some ''org.laptop.JournalActivity'' else None"
     "\<lparr>window = None, service = None, activity_id = Some ''abc123'', activity_info = None,
       launch_time = 0, launching = False\<rparr>"]
  by (simp add: get_type_def)

subsection \<open>A record constructed with an id and no window\<close>

text \<open>
  Claim C8. A record constructed with a non-empty activity id, type metadata and no
  window: the constructor succeeds, \<open>get_title\<close> is the empty string, \<open>get_icon_path\<close>
  is the icon path of the type metadata (without a window the record is not the journal),
  and \<open>get_launch_time\<close> is the time read at construction.
\<close>

theorem init_with_id_no_window:
  assumes "truthy aid" and "init bus now (Some info) aid None = (r, w)"
  shows "r = Inr ()
       \<and> get_title (self w) = []
       \<and> \<not> is_journal wm (self w)
       \<and> get_icon_path data_path wm (self w) = Some (icon info)
       \<and> get_launch_time (self w) = now"
proof -
  from assms(1) obtain i where i: "aid = Some i" "i \<noteq> []"
    by (auto simp: truthy_iff)
  let ?w0 = "\<lparr>self = \<lparr>window = None, service = None, activity_id = aid, activity_info = Some info,
                launch_time = now, launching = False\<rparr>, trace = []\<rparr>"
  have a: "activity_id (self ?w0) = Some i" using i by simp
  note rs = retrieve_service_truthy [OF a i(2), of bus]
  from assms(2) have r: "r = Inr ()"
    by (auto simp: init_def Let_def split: if_splits)
  from assms(2) have w: "window (self w) = None \<and> activity_info (self w) = Some info
      \<and> launch_time (self w) = now"
    by (auto simp: init_def Let_def rs split: if_splits)
  from r w show ?thesis
    by (simp add: get_title_def get_icon_path_def is_journal_def get_type_def get_launch_time_def)
qed

theorem init_with_id_no_window_witness:
  "truthy (Some ''abc123'')
   \<and> fst (init {} 1000 (Some \<lparr>icon = ''/usr/share/activities/Write.activity/activity/write.svg''\<rparr>)
            (Some ''abc123'') None) = Inr ()
   \<and> get_title (self (snd (init {} 1000
            (Some \<lparr>icon = ''/usr/share/activities/Write.activity/activity/write.svg''\<rparr>)
            (Some ''abc123'') None))) = []
   \<and> get_icon_path ''/usr/share/sugar/shell'' (\<lambda>win. Some ''org.laptop.JournalActivity'')
        (self (snd (init {} 1000
            (Some \<lparr>icon = ''/usr/share/activities/Write.activity/activity/write.svg''\<rparr>)
            (Some ''abc123'') None)))
      = Some ''/usr/share/activities/Write.activity/activity/write.svg''
   \<and> get_launch_time (self (snd (init {} 1000
            (Some \<lparr>icon = ''/usr/share/activities/Write.activity/activity/write.svg''\<rparr>)
            (Some ''abc123'') None))) = 1000"
proof -
  have h: "truthy (Some ''abc123'')" by simp
  show ?thesis
    using h init_with_id_no_window [OF h prod.collapse [symmetric],
      of "{}" 1000 "\<lparr>icon = ''/usr/share/activities/Write.activity/activity/write.svg''\<rparr>"
         "\<lambda>win. Some ''org.laptop.JournalActivity''" "''/usr/share/sugar/shell''"]
    by simp
qed

subsection \<open>Equality without a window\<close>

text \<open>
  Claim C9. When the activity ids do not decide (at least one of the two is empty) and
  the receiver has no window, \<open>equals\<close> raises \<^verbatim>\<open>AttributeError\<close>: it reads
  \<^verbatim>\<open>get_xid\<close> of the absent window. It does not return false.
\<close>

theorem equals_without_window_raises:
  "\<not> (truthy (activity_id a) \<and> truthy (activity_id b)) \<Longrightarrow> window a = None \<Longrightarrow>
   equals a b = Inl (AttributeError ''get_xid'')"
  by (auto simp: equals_def get_activity_id_def)

theorem equals_without_window_raises_witness:
  "equals
     \<lparr>window = None, service = None, activity_id = Some [], activity_info = None,
      launch_time = 0, launching = False\<rparr>
     \<lparr>window = Some \<lparr>window_name = ''Write'', window_xid = 7, window_pid = 100\<rparr>, service = None,
      activity_id = Some ''abc123'', activity_info = None, launch_time = 1, launching = False\<rparr>
   = Inl (AttributeError ''get_xid'')"
  using equals_without_window_raises [of
     "\<lparr>window = None, service = None, activity_id = Some [], activity_info = None,
       launch_time = 0, launching = False\<rparr>"
     "\<lparr>window = Some \<lparr>window_name = ''Write'', window_xid = 7, window_pid = 100\<rparr>, service = None,
       activity_id = Some ''abc123'', activity_info = None, launch_time = 1, launching = False\<rparr>"]
  by simp

subsection \<open>A record without an id never gets a service\<close>

text \<open>
  Claim C10. For a record constructed with an empty activity id (with or without a
  window) the well-known service name is absent. No ownership-change notification,
  whatever its name and whatever the state of the bus, changes the record or its trace:
  the callback neither looks the service up nor calls it. After any run of calls of the
  host the record still has no service handle, and no lookup and no call of the service
  has been made.
\<close>

theorem empty_id_never_bound:
  assumes "\<not> truthy aid" and "init bus now info aid win = (r, w)"
  shows "r = Inr ()
       \<and> get_service_name (self w) = None
       \<and> name_owner_changed_cb bus' name old new w = w
       \<and> service (self (run calls w)) = None
       \<and> filter is_remote (trace (run calls w)) = []"
proof -
  from init_falsy [OF assms(1), of bus now info win] assms(2)
  have r: "r = Inr ()"
    and w: "w = \<lparr>self = \<lparr>window = win, service = None, activity_id = aid, activity_info = info,
                launch_time = now, launching = False\<rparr>,
              trace = [AddSignalReceiver ''NameOwnerChanged'' ''org.freedesktop.DBus'']\<rparr>"
    by simp_all
  have f: "\<not> truthy (activity_id (self w))" and s: "service (self w) = None"
    and t: "filter is_remote (trace w) = []"
    using assms(1) by (simp_all add: w)
  from run_falsy [OF f s, of calls] t
  have "service (self (run calls w)) = None \<and> filter is_remote (trace (run calls w)) = []"
    by simp
  with r get_service_name_falsy [OF f] name_owner_changed_cb_falsy [OF f, of bus' name old new]
  show ?thesis by simp
qed

theorem empty_id_never_bound_witness:
  "\<not> truthy (Some [])
   \<and> fst (init {(Some ''org.laptop.Activity'', ''/org/laptop/Activity/'')} 1000 None (Some [])
            (Some \<lparr>window_name = ''xterm'', window_xid = 7, window_pid = 100\<rparr>)) = Inr ()
   \<and> service (self (run
        [({(Some ''org.laptop.Activity'', ''/org/laptop/Activity/'')},
          Signal_name_owner_changed ''org.laptop.Activity'' [] '':1.42''),
         ({(Some ''org.laptop.Activity'', ''/org/laptop/Activity/'')}, Call_set_active True)]
        (snd (init {(Some ''org.laptop.Activity'', ''/org/laptop/Activity/'')} 1000 None (Some [])
            (Some \<lparr>window_name = ''xterm'', window_xid = 7, window_pid = 100\<rparr>))))) = None
   \<and> filter is_remote (trace (run
        [({(Some ''org.laptop.Activity'', ''/org/laptop/Activity/'')},
          Signal_name_owner_changed ''org.laptop.Activity'' [] '':1.42''),
         ({(Some ''org.laptop.Activity'', ''/org/laptop/Activity/'')}, Call_set_active True)]
        (snd (init {(Some ''org.laptop.Activity'', ''/org/laptop/Activity/'')} 1000 None (Some [])
            (Some \<lparr>window_name = ''xterm'', window_xid = 7, window_pid = 100\<rparr>))))) = []"
proof -
  have h: "\<not> truthy (Some [])" by simp
  show ?thesis
    using h empty_id_never_bound [OF h prod.collapse [symmetric],
      of "{(Some ''org.laptop.Activity'', ''/org/laptop/Activity/'')}" 1000 None
         "Some \<lparr>window_name = ''xterm'', window_xid = 7, window_pid = 100\<rparr>"
         "{(Some ''org.laptop.Activity'', ''/org/laptop/Activity/'')}" "''org.laptop.Activity''" "[]" "'':1.42''"
         "[({(Some ''org.laptop.Activity'', ''/org/laptop/Activity/'')},
            Signal_name_owner_changed ''org.laptop.Activity'' [] '':1.42''),
           ({(Some ''org.laptop.Activity'', ''/org/laptop/Activity/'')}, Call_set_active True)]"]
    by blast
qed

end
